theory Spec2Isabelle
  imports Complex_Main
begin

section \<open>Numbers, errors and arrays\<close>

subsection \<open>Floating-point values\<close>

text \<open>
  The arrays of \<^verbatim>\<open>tobit.py\<close> hold IEEE 754 doubles. A value is modelled as a real
  number or one of the three special values: finite results are exact (neither
  rounding nor overflow is modelled, and there is one zero, dividing like \<^verbatim>\<open>+0.0\<close>),
  the infinities and NaN behave as in IEEE 754. numpy does not raise on a division by
  zero or on the square root of a negative number: it returns \<^verbatim>\<open>inf\<close> or \<^verbatim>\<open>nan\<close>
  (with a RuntimeWarning).
\<close>

datatype float64 = Fin real | PInf | NInf | NaN

instantiation float64 :: "{zero,one,plus,uminus,minus,times,inverse,abs}"
begin

definition zero_float64 :: float64 where
  "zero_float64 = Fin 0"

definition one_float64 :: float64 where
  "one_float64 = Fin 1"

fun plus_float64 :: "float64 \<Rightarrow> float64 \<Rightarrow> float64" where
  "plus_float64 (Fin a) (Fin b) = Fin (a + b)"
| "plus_float64 NaN _ = NaN"
| "plus_float64 _ NaN = NaN"
| "plus_float64 PInf NInf = NaN"
| "plus_float64 NInf PInf = NaN"
| "plus_float64 PInf _ = PInf"
| "plus_float64 _ PInf = PInf"
| "plus_float64 NInf _ = NInf"
| "plus_float64 _ NInf = NInf"

fun uminus_float64 :: "float64 \<Rightarrow> float64" where
  "uminus_float64 (Fin a) = Fin (- a)"
| "uminus_float64 PInf = NInf"
| "uminus_float64 NInf = PInf"
| "uminus_float64 NaN = NaN"

definition minus_float64 :: "float64 \<Rightarrow> float64 \<Rightarrow> float64" where
  "minus_float64 a b = a + (- b)"

fun times_float64 :: "float64 \<Rightarrow> float64 \<Rightarrow> float64" where
  "times_float64 (Fin a) (Fin b) = Fin (a * b)"
| "times_float64 NaN _ = NaN"
| "times_float64 _ NaN = NaN"
| "times_float64 (Fin a) PInf = (if a = 0 then NaN else if 0 < a then PInf else NInf)"
| "times_float64 (Fin a) NInf = (if a = 0 then NaN else if 0 < a then NInf else PInf)"
| "times_float64 PInf (Fin b) = (if b = 0 then NaN else if 0 < b then PInf else NInf)"
| "times_float64 NInf (Fin b) = (if b = 0 then NaN else if 0 < b then NInf else PInf)"
| "times_float64 PInf PInf = PInf"
| "times_float64 PInf NInf = NInf"
| "times_float64 NInf PInf = NInf"
| "times_float64 NInf NInf = PInf"

fun divide_float64 :: "float64 \<Rightarrow> float64 \<Rightarrow> float64" where
  "divide_float64 (Fin a) (Fin b) =
     (if b \<noteq> 0 then Fin (a / b) else if a = 0 then NaN else if 0 < a then PInf else NInf)"
| "divide_float64 NaN _ = NaN"
| "divide_float64 _ NaN = NaN"
| "divide_float64 (Fin a) PInf = Fin 0"
| "divide_float64 (Fin a) NInf = Fin 0"
| "divide_float64 PInf (Fin b) = (if 0 \<le> b then PInf else NInf)"
| "divide_float64 NInf (Fin b) = (if 0 \<le> b then NInf else PInf)"
| "divide_float64 PInf PInf = NaN"
| "divide_float64 PInf NInf = NaN"
| "divide_float64 NInf PInf = NaN"
| "divide_float64 NInf NInf = NaN"

definition inverse_float64 :: "float64 \<Rightarrow> float64" where
  "inverse_float64 a = divide (Fin 1) a"

fun abs_float64 :: "float64 \<Rightarrow> float64" where
  "abs_float64 (Fin a) = Fin \<bar>a\<bar>"
| "abs_float64 PInf = PInf"
| "abs_float64 NInf = PInf"
| "abs_float64 NaN = NaN"

instance ..

end

instance float64 :: comm_monoid_add
proof
  fix a b c :: float64
  show "a + b + c = a + (b + c)" by (cases a; cases b; cases c; simp)
  show "a + b = b + a" by (cases a; cases b; simp)
  show "0 + a = a" by (cases a; simp add: zero_float64_def)
qed

subsection \<open>Exceptions\<close>

text \<open>
  Every exception the code or a library call can raise is a value: a function that can
  raise returns \<open>error + 'a\<close>, with \<open>Inl\<close> for the exception.
\<close>

datatype error = IndexError | ValueError | TypeError | AttributeError | NameError | IndexingError

definition and_then :: "error + 'a \<Rightarrow> ('a \<Rightarrow> error + 'b) \<Rightarrow> error + 'b" where
  "and_then r f = (case r of Inl e \<Rightarrow> Inl e | Inr v \<Rightarrow> f v)"

fun isfinite :: "float64 \<Rightarrow> bool" where
  "isfinite (Fin a) = True"
| "isfinite _ = False"

text \<open>Comparison: every comparison with NaN is false.\<close>

fun float_less :: "float64 \<Rightarrow> float64 \<Rightarrow> bool" where
  "float_less (Fin a) (Fin b) = (a < b)"
| "float_less (Fin a) PInf = True"
| "float_less NInf (Fin b) = True"
| "float_less NInf PInf = True"
| "float_less _ _ = False"

text \<open>Python's built-in \<^verbatim>\<open>max(a, b)\<close>: the first argument unless the second is greater.\<close>

definition py_max :: "float64 \<Rightarrow> float64 \<Rightarrow> float64" where
  "py_max a b = (if float_less a b then b else a)"

text \<open>\<^verbatim>\<open>np.finfo('float').resolution\<close> is \<open>1e-15\<close>.\<close>

definition resolution :: float64 where
  "resolution = Fin (1 / 10 ^ 15)"

subsection \<open>Library functions\<close>

text \<open>
  The functions of numpy, scipy and the math module that the code calls are not part of
  the repository. They are modelled by the mathematical functions they compute, extended
  to the special values as the libraries do.
\<close>

text \<open>
  Modelled from the spec: the standard normal CDF \<open>\<Phi>\<close> behind
  \<^verbatim>\<open>scipy.stats.norm.logcdf\<close>, \<^verbatim>\<open>scipy.special.log_ndtr\<close> and
  \<^verbatim>\<open>scipy.stats.norm.cdf\<close>, as its power series around zero.
\<close>

definition std_normal_cdf :: "real \<Rightarrow> real" where
  "std_normal_cdf z =
     1 / 2 + (\<Sum>n. (- 1) ^ n * z ^ (2 * n + 1) / (2 ^ n * fact n * (2 * real n + 1))) / sqrt (2 * pi)"

fun norm_cdf :: "float64 \<Rightarrow> float64" where
  "norm_cdf (Fin z) = Fin (std_normal_cdf z)"
| "norm_cdf PInf = Fin 1"
| "norm_cdf NInf = Fin 0"
| "norm_cdf NaN = NaN"

text \<open>\<^verbatim>\<open>scipy.special.log_ndtr\<close>, the logarithm of \<open>\<Phi>\<close>.\<close>

fun log_ndtr :: "float64 \<Rightarrow> float64" where
  "log_ndtr (Fin z) = Fin (ln (std_normal_cdf z))"
| "log_ndtr PInf = Fin 0"
| "log_ndtr NInf = NInf"
| "log_ndtr NaN = NaN"

text \<open>\<^verbatim>\<open>scipy.stats.norm.logcdf\<close> evaluates \<^verbatim>\<open>log_ndtr\<close>.\<close>

definition norm_logcdf :: "float64 \<Rightarrow> float64" where
  "norm_logcdf z = log_ndtr z"

text \<open>
  Modelled from the spec: \<^verbatim>\<open>scipy.stats.norm.logpdf\<close>, the logarithm of the standard
  normal density \<open>\<phi>(z) = exp (- z\<^sup>2 / 2) / sqrt (2 \<pi>)\<close>.
\<close>

fun norm_logpdf :: "float64 \<Rightarrow> float64" where
  "norm_logpdf (Fin z) = Fin (- (z ^ 2) / 2 - ln (sqrt (2 * pi)))"
| "norm_logpdf PInf = NInf"
| "norm_logpdf NInf = NInf"
| "norm_logpdf NaN = NaN"

fun np_exp :: "float64 \<Rightarrow> float64" where
  "np_exp (Fin z) = Fin (exp z)"
| "np_exp PInf = PInf"
| "np_exp NInf = Fin 0"
| "np_exp NaN = NaN"

fun np_sqrt :: "float64 \<Rightarrow> float64" where
  "np_sqrt (Fin z) = (if z < 0 then NaN else Fin (sqrt z))"
| "np_sqrt PInf = PInf"
| "np_sqrt NInf = NaN"
| "np_sqrt NaN = NaN"

definition np_square :: "float64 \<Rightarrow> float64" where
  "np_square z = z * z"

text \<open>\<^verbatim>\<open>math.log\<close> raises ValueError outside its domain.\<close>

fun math_log :: "float64 \<Rightarrow> error + float64" where
  "math_log (Fin z) = (if 0 < z then Inr (Fin (ln z)) else Inl ValueError)"
| "math_log PInf = Inr PInf"
| "math_log NInf = Inl ValueError"
| "math_log NaN = Inr NaN"

text \<open>
  \<^verbatim>\<open>ndarray.round(4)\<close>: to four decimals, halves to the even neighbour.
\<close>

definition round_half_even :: "real \<Rightarrow> int" where
  "round_half_even v =
     (let f = \<lfloor>v\<rfloor>; d = v - of_int f
      in if d < 1 / 2 then f else if 1 / 2 < d then f + 1 else if even f then f else f + 1)"

fun np_round4 :: "float64 \<Rightarrow> float64" where
  "np_round4 (Fin v) = Fin (of_int (round_half_even (v * 10 ^ 4)) / 10 ^ 4)"
| "np_round4 PInf = PInf"
| "np_round4 NInf = NInf"
| "np_round4 NaN = NaN"

subsection \<open>Frames\<close>

text \<open>
  A pandas DataFrame is its column names and its rows (each row has one entry per
  column); a Series is the list of its values. Frames and series carry the default
  positional index, so two of them are aligned by position.
\<close>

record DataFrame =
  columns :: "string list"
  rows :: "float64 list list"

text \<open>
  \<^verbatim>\<open>frame[mask]\<close> with a boolean Series as key: pandas aligns the key on the frame's index,
  keeps the rows whose key entry is true, in order, and raises when the key has no
  entry for some row of the frame.
\<close>

definition bool_index :: "'a list \<Rightarrow> bool list \<Rightarrow> error + 'a list" where
  "bool_index frame key =
     (if length key < length frame then Inl IndexingError
      else Inr (map fst (filter snd (zip frame key))))"

subsection \<open>Arrays\<close>

text \<open>
  A 1-d array is a list, a 2-d array the list of its rows (all of one length).
  \<^verbatim>\<open>np.dot\<close> of a matrix and a vector raises ValueError when the row length is not the
  length of the vector, and TypeError when it is given \<^verbatim>\<open>None\<close>.
\<close>

definition np_dot_mv :: "float64 list list \<Rightarrow> float64 list \<Rightarrow> error + float64 list" where
  "np_dot_mv a b =
     (if list_all (\<lambda>row. length row = length b) a
      then Inr (map (\<lambda>row. sum_list (map2 (*) row b)) a)
      else Inl ValueError)"

definition np_dot_opt :: "float64 list list option \<Rightarrow> float64 list \<Rightarrow> error + float64 list" where
  "np_dot_opt a b = (case a of None \<Rightarrow> Inl TypeError | Some m \<Rightarrow> np_dot_mv m b)"

definition np_dot_vv :: "float64 list \<Rightarrow> float64 list \<Rightarrow> error + float64" where
  "np_dot_vv v w =
     (if length v = length w then Inr (sum_list (map2 (*) v w)) else Inl ValueError)"

text \<open>
  \<^verbatim>\<open>np.dot\<close> of a vector and a matrix of \<open>k\<close> columns: entry \<open>j\<close> is the sum over the
  rows \<open>i\<close> of \<open>v\<^sub>i * m\<^sub>i\<^sub>j\<close>. The list of rows does not tell the number of columns of a
  matrix without rows, so \<open>k\<close> is an argument.
\<close>

definition np_dot_vm :: "nat \<Rightarrow> float64 list \<Rightarrow> float64 list list \<Rightarrow> error + float64 list" where
  "np_dot_vm k v m =
     (if length v = length m
      then Inr (map (\<lambda>j. sum_list (map2 (\<lambda>vi row. vi * row ! j) v m)) [0..<k])
      else Inl ValueError)"

text \<open>
  An elementwise operation on two 1-d arrays: numpy broadcasts an array of length one
  and raises ValueError on any other pair of different lengths.
\<close>

definition np_broadcast ::
  "(float64 \<Rightarrow> float64 \<Rightarrow> float64) \<Rightarrow> float64 list \<Rightarrow> float64 list \<Rightarrow> error + float64 list" where
  "np_broadcast f a b =
     (if length a = length b then Inr (map2 f a b)
      else if length a = 1 then Inr (map (f (hd a)) b)
      else if length b = 1 then Inr (map (\<lambda>u. f u (hd b)) a)
      else Inl ValueError)"

text \<open>
  An in-place operation \<^verbatim>\<open>a -= b\<close>, \<^verbatim>\<open>a += b\<close>: the result keeps the shape of \<open>a\<close>, so
  only \<open>b\<close> is broadcast.
\<close>

definition np_inplace ::
  "(float64 \<Rightarrow> float64 \<Rightarrow> float64) \<Rightarrow> float64 list \<Rightarrow> float64 list \<Rightarrow> error + float64 list" where
  "np_inplace f a b =
     (if length a = length b then Inr (map2 f a b)
      else if length b = 1 then Inr (map (\<lambda>u. f u (hd b)) a)
      else Inl ValueError)"

definition np_diag :: "float64 list list \<Rightarrow> float64 list" where
  "np_diag m = map (\<lambda>i. m ! i ! i) [0..<min (length m) (case m of [] \<Rightarrow> 0 | r # _ \<Rightarrow> length r)]"

text \<open>\<^verbatim>\<open>np.var\<close>: the mean of the squared deviations from the mean.\<close>

definition np_mean :: "float64 list \<Rightarrow> float64" where
  "np_mean v = sum_list v / Fin (real (length v))"

definition np_var :: "float64 list \<Rightarrow> float64" where
  "np_var v = np_mean (map (\<lambda>u. np_square (u - np_mean v)) v)"

section \<open>The partitioner\<close>

text \<open>
  \<^verbatim>\<open>cens.value_counts()\<close>: a table from each value that occurs in \<^verbatim>\<open>cens\<close> to the
  number of its occurrences; \<^verbatim>\<open>v in counts\<close> asks whether \<open>v\<close> is a key.
\<close>

definition value_counts :: "int list \<Rightarrow> (int \<rightharpoonup> nat)" where
  "value_counts cens = (\<lambda>v. if v \<in> set cens then Some (count_list cens v) else None)"

type_synonym groups_x = "float64 list list option list"
type_synonym groups_y = "float64 list option list"

text \<open>
  The loop \<^verbatim>\<open>for value in [-1, 0, 1]\<close> of \<^verbatim>\<open>split_left_right_censored\<close>, with the
  two lists it appends to. \<^verbatim>\<open>np.squeeze\<close> turns a response vector of one row into a
  0-d array, which numpy broadcasts like a vector of length one in every later use:
  the model keeps the vector.
\<close>

fun split_loop ::
  "DataFrame \<Rightarrow> float64 list \<Rightarrow> int list \<Rightarrow> int list \<Rightarrow> groups_x \<Rightarrow> groups_y
     \<Rightarrow> error + (groups_x \<times> groups_y)" where
  "split_loop x y cens [] xs ys = Inr (xs, ys)"
| "split_loop x y cens (v # vs) xs ys =
     (if value_counts cens v \<noteq> None then
        (let split = map (\<lambda>c. c = v) cens in
         and_then (bool_index y split) (\<lambda>y_split.
         and_then (bool_index (rows x) split) (\<lambda>x_split.
           split_loop x y cens vs (xs @ [Some x_split]) (ys @ [Some y_split]))))
      else split_loop x y cens vs (xs @ [None]) (ys @ [None]))"

text \<open>
  \<^verbatim>\<open>split_left_right_censored(x, y, cens)\<close>. The result carries the warnings emitted
  (\<^verbatim>\<open>warnings.warn\<close> does not stop the function).
\<close>

definition no_censored_warning :: string where
  "no_censored_warning =
     ''No censored observations; use regression methods for uncensored data''"

definition split_left_right_censored ::
  "DataFrame \<Rightarrow> float64 list \<Rightarrow> int list \<Rightarrow> error + (string list \<times> groups_x \<times> groups_y)" where
  "split_left_right_censored x y cens =
     (let counts = value_counts cens;
          warned = (if counts (- 1) = None \<and> counts 1 = None
                    then [no_censored_warning] else [])
      in and_then (split_loop x y cens [- 1, 0, 1] [] [])
           (\<lambda>(xs, ys). Inr (warned, xs, ys)))"

text \<open>
  For the statements about the partitioner: the positions of the observations whose
  censoring code is \<open>v\<close>, in input order.
\<close>

definition group_rows :: "int list \<Rightarrow> int \<Rightarrow> nat list" where
  "group_rows cens v = filter (\<lambda>i. cens ! i = v) [0..<length cens]"

definition group_of :: "'a list \<Rightarrow> int list \<Rightarrow> int \<Rightarrow> 'a list option" where
  "group_of frame cens v =
     (if group_rows cens v = [] then None else Some (map ((!) frame) (group_rows cens v)))"

section \<open>The objective and its gradient\<close>

text \<open>
  The residuals of one group, before the division by the scale:
  \<^verbatim>\<open>y - np.dot(x, b)\<close> (left and mid) and \<^verbatim>\<open>np.dot(x, b) - y\<close> (right).
\<close>

definition resid_left :: "float64 list list option \<Rightarrow> float64 list \<Rightarrow> float64 list \<Rightarrow> error + float64 list" where
  "resid_left x y b = and_then (np_dot_opt x b) (\<lambda>d. np_broadcast (-) y d)"

definition resid_right :: "float64 list list option \<Rightarrow> float64 list \<Rightarrow> float64 list \<Rightarrow> error + float64 list" where
  "resid_right x y b = and_then (np_dot_opt x b) (\<lambda>d. np_broadcast (-) d y)"

text \<open>
  \<^verbatim>\<open>tobit_neg_log_likelihood(xs, ys, params)\<close>. \<open>xs\<close> and \<open>ys\<close> are the lists the
  partitioner returns (unpacking a list that does not have three entries raises
  ValueError), \<open>params\<close> is a 1-d array (\<^verbatim>\<open>params[-1]\<close> raises IndexError when it is
  empty).
\<close>

definition tobit_neg_log_likelihood :: "groups_x \<Rightarrow> groups_y \<Rightarrow> float64 list \<Rightarrow> error + float64" where
  "tobit_neg_log_likelihood xs ys params =
     (case xs of
        [x_left, x_mid, x_right] \<Rightarrow>
          (case ys of
             [y_left, y_mid, y_right] \<Rightarrow>
               (if params = [] then Inl IndexError
                else
                  (let b = butlast params; s = last params;
                       to_cat = [];
                       cens = False
                   in
                   and_then
                     (case y_left of None \<Rightarrow> Inr (to_cat, cens)
                      | Some yl \<Rightarrow>
                          and_then (resid_left x_left yl b) (\<lambda>left. Inr (to_cat @ [left], True)))
                     (\<lambda>(to_cat, cens).
                   and_then
                     (case y_right of None \<Rightarrow> Inr (to_cat, cens)
                      | Some yr \<Rightarrow>
                          and_then (resid_right x_right yr b) (\<lambda>right. Inr (to_cat @ [right], True)))
                     (\<lambda>(to_cat, cens).
                   (let cens_sum =
                          (if cens
                           then (let concat_stats = map (\<lambda>v. v / s) (concat to_cat);
                                     log_cum_norm = map norm_logcdf concat_stats
                                 in sum_list log_cum_norm)
                           else 0)
                    in
                   and_then
                     (case y_mid of None \<Rightarrow> Inr 0
                      | Some ym \<Rightarrow>
                          and_then (resid_left x_mid ym b) (\<lambda>r.
                          (let mid_stats = map (\<lambda>v. v / s) r in
                           and_then (math_log (py_max resolution s)) (\<lambda>lg.
                             Inr (sum_list (map (\<lambda>z. norm_logpdf z - lg) mid_stats))))))
                     (\<lambda>mid_sum.
                   (let loglik = cens_sum + mid_sum in Inr (- loglik))))))))
           | _ \<Rightarrow> Inl ValueError)
      | _ \<Rightarrow> Inl ValueError)"

text \<open>
  The three blocks of \<^verbatim>\<open>tobit_neg_log_likelihood_der\<close>, each updating the pair
  \<^verbatim>\<open>(beta_jac, sigma_jac)\<close>. The matrix \<^verbatim>\<open>x / s\<close> has as many columns as \<open>b\<close> has
  entries, \<^verbatim>\<open>np.dot(x, b)\<close> having passed; dividing \<^verbatim>\<open>None\<close> raises TypeError.
\<close>

definition der_left ::
  "float64 list list option \<Rightarrow> float64 list \<Rightarrow> float64 list \<Rightarrow> float64
     \<Rightarrow> float64 list \<times> float64 \<Rightarrow> error + (float64 list \<times> float64)" where
  "der_left x_left y_left b s jac =
     (case jac of (beta_jac, sigma_jac) \<Rightarrow>
        and_then (resid_left x_left y_left b) (\<lambda>r.
        (let left_stats = map (\<lambda>v. v / s) r;
             l_pdf = map norm_logpdf left_stats;
             l_cdf = map log_ndtr left_stats;
             left_frac = map np_exp (map2 (-) l_pdf l_cdf)
         in
        and_then (case x_left of None \<Rightarrow> Inl TypeError
                  | Some x \<Rightarrow> np_dot_vm (length b) left_frac (map (map (\<lambda>v. v / s)) x)) (\<lambda>beta_left.
        and_then (np_inplace (-) beta_jac beta_left) (\<lambda>beta_jac.
        and_then (np_dot_vv left_frac left_stats) (\<lambda>left_sigma.
          Inr (beta_jac, sigma_jac - left_sigma)))))))"

definition der_right ::
  "float64 list list option \<Rightarrow> float64 list \<Rightarrow> float64 list \<Rightarrow> float64
     \<Rightarrow> float64 list \<times> float64 \<Rightarrow> error + (float64 list \<times> float64)" where
  "der_right x_right y_right b s jac =
     (case jac of (beta_jac, sigma_jac) \<Rightarrow>
        and_then (resid_right x_right y_right b) (\<lambda>r.
        (let right_stats = map (\<lambda>v. v / s) r;
             r_pdf = map norm_logpdf right_stats;
             r_cdf = map log_ndtr right_stats;
             right_frac = map np_exp (map2 (-) r_pdf r_cdf)
         in
        and_then (case x_right of None \<Rightarrow> Inl TypeError
                  | Some x \<Rightarrow> np_dot_vm (length b) right_frac (map (map (\<lambda>v. v / s)) x)) (\<lambda>beta_right.
        and_then (np_inplace (+) beta_jac beta_right) (\<lambda>beta_jac.
        and_then (np_dot_vv right_frac right_stats) (\<lambda>right_sigma.
          Inr (beta_jac, sigma_jac - right_sigma)))))))"

definition der_mid ::
  "float64 list list option \<Rightarrow> float64 list \<Rightarrow> float64 list \<Rightarrow> float64
     \<Rightarrow> float64 list \<times> float64 \<Rightarrow> error + (float64 list \<times> float64)" where
  "der_mid x_mid y_mid b s jac =
     (case jac of (beta_jac, sigma_jac) \<Rightarrow>
        and_then (resid_left x_mid y_mid b) (\<lambda>r.
        (let mid_stats = map (\<lambda>v. v / s) r in
        and_then (case x_mid of None \<Rightarrow> Inl TypeError
                  | Some x \<Rightarrow> np_dot_vm (length b) mid_stats (map (map (\<lambda>v. v / s)) x)) (\<lambda>beta_mid.
        and_then (np_inplace (+) beta_jac beta_mid) (\<lambda>beta_jac.
        (let mid_sigma = sum_list (map (\<lambda>z. np_square z - 1) mid_stats)
         in Inr (beta_jac, sigma_jac + mid_sigma)))))))"

text \<open>\<^verbatim>\<open>tobit_neg_log_likelihood_der(xs, ys, params)\<close>.\<close>

definition tobit_neg_log_likelihood_der ::
  "groups_x \<Rightarrow> groups_y \<Rightarrow> float64 list \<Rightarrow> error + float64 list" where
  "tobit_neg_log_likelihood_der xs ys params =
     (case xs of
        [x_left, x_mid, x_right] \<Rightarrow>
          (case ys of
             [y_left, y_mid, y_right] \<Rightarrow>
               (if params = [] then Inl IndexError
                else
                  (let b = butlast params; s = last params;
                       beta_jac = replicate (length b) 0;
                       sigma_jac = 0
                   in
                   and_then
                     (case y_left of None \<Rightarrow> Inr (beta_jac, sigma_jac)
                      | Some yl \<Rightarrow> der_left x_left yl b s (beta_jac, sigma_jac))
                     (\<lambda>jac.
                   and_then
                     (case y_right of None \<Rightarrow> Inr jac
                      | Some yr \<Rightarrow> der_right x_right yr b s jac)
                     (\<lambda>jac.
                   and_then
                     (case y_mid of None \<Rightarrow> Inr jac
                      | Some ym \<Rightarrow> der_mid x_mid ym b s jac)
                     (\<lambda>(beta_jac, sigma_jac).
                   (let combo_jac = beta_jac @ [sigma_jac / s]
                    in Inr (map uminus combo_jac)))))))
           | _ \<Rightarrow> Inl ValueError)
      | _ \<Rightarrow> Inl ValueError)"

section \<open>The formulas of the specification\<close>

text \<open>
  A partitioned dataset is three groups of observations, left, mid and right; an
  observation is a feature row with its response, a group without observations is
  absent. The partitioner hands the features and the responses of the groups over in two
  parallel lists.
\<close>

type_synonym observation = "float64 list \<times> float64"
type_synonym obs_group = "observation list option"

definition xs_of :: "obs_group list \<Rightarrow> groups_x" where
  "xs_of gs = map (map_option (map fst)) gs"

definition ys_of :: "obs_group list \<Rightarrow> groups_y" where
  "ys_of gs = map (map_option (map snd)) gs"

text \<open>Every feature row has one entry per coefficient.\<close>

definition rows_fit :: "float64 list \<Rightarrow> obs_group \<Rightarrow> bool" where
  "rows_fit b g =
     (case g of None \<Rightarrow> True | Some obs \<Rightarrow> list_all (\<lambda>ob. length (fst ob) = length b) obs)"

text \<open>
  The product \<open>x\<^sub>i \<cdot> \<beta>\<close>, the standardized residuals \<open>(y\<^sub>i - x\<^sub>i \<cdot> \<beta>) / \<sigma>\<close> (left and mid)
  and \<open>(x\<^sub>i \<cdot> \<beta> - y\<^sub>i) / \<sigma>\<close> (right), and the sum of a term over a group, which is 0
  for an absent group.
\<close>

definition row_dot :: "float64 list \<Rightarrow> float64 list \<Rightarrow> float64" where
  "row_dot x b = sum_list (map2 (*) x b)"

definition z_left :: "float64 list \<Rightarrow> float64 \<Rightarrow> observation \<Rightarrow> float64" where
  "z_left b s ob = (snd ob - row_dot (fst ob) b) / s"

definition z_right :: "float64 list \<Rightarrow> float64 \<Rightarrow> observation \<Rightarrow> float64" where
  "z_right b s ob = (row_dot (fst ob) b - snd ob) / s"

definition sum_over :: "(observation \<Rightarrow> float64) \<Rightarrow> obs_group \<Rightarrow> float64" where
  "sum_over f g = (case g of None \<Rightarrow> 0 | Some obs \<Rightarrow> sum_list (map f obs))"

text \<open>
  The logarithm of a float (\<^verbatim>\<open>np.log\<close>: \<open>-inf\<close> at zero, NaN below), and the logarithm of
  the scale floored at the resolution.
\<close>

fun np_log :: "float64 \<Rightarrow> float64" where
  "np_log (Fin z) = (if 0 < z then Fin (ln z) else if z = 0 then NInf else NaN)"
| "np_log PInf = PInf"
| "np_log NInf = NaN"
| "np_log NaN = NaN"

definition floored_log :: "float64 \<Rightarrow> float64" where
  "floored_log s = np_log (py_max resolution s)"

text \<open>
  The negative log-likelihood in the words of the specification: the negative of the sum
  of \<open>log \<Phi>(z\<^sub>i)\<close> over the left group, of \<open>log \<Phi>(z\<^sub>i)\<close> over the right group and of
  \<open>log \<phi>(z\<^sub>i) - log \<sigma>\<close> over the mid group. The term that stands for \<open>log \<sigma>\<close> is an
  argument.
\<close>

definition spec_neg_log_likelihood ::
  "float64 \<Rightarrow> obs_group \<Rightarrow> obs_group \<Rightarrow> obs_group \<Rightarrow> float64 list \<Rightarrow> float64 \<Rightarrow> float64" where
  "spec_neg_log_likelihood log_sigma left mid right b s =
     - (sum_over (\<lambda>ob. norm_logcdf (z_left b s ob)) left
        + sum_over (\<lambda>ob. norm_logcdf (z_right b s ob)) right
        + sum_over (\<lambda>ob. norm_logpdf (z_left b s ob) - log_sigma) mid)"

text \<open>
  The gradient in the words of the specification. The ratio is \<open>exp (log\<phi>(z) - log\<Phi>(z))\<close>.
  Entry \<open>j\<close> of the coefficient part is \<open>- \<Sum> ratio\<^sub>i * x\<^sub>i\<^sub>j / \<sigma>\<close> over the left group,
  plus \<open>\<Sum> ratio\<^sub>i * x\<^sub>i\<^sub>j / \<sigma>\<close> over the right group, plus \<open>\<Sum> z\<^sub>i * x\<^sub>i\<^sub>j / \<sigma>\<close> over the mid
  group; the scale accumulator is \<open>- \<Sum> ratio\<^sub>i * z\<^sub>i\<close> over the left group, minus the same
  sum over the right group, plus \<open>\<Sum> (z\<^sub>i\<^sup>2 - 1)\<close> over the mid group. The result is the
  negated vector of the coefficient entries followed by the accumulator divided by the
  scale.
\<close>

definition mills :: "float64 \<Rightarrow> float64" where
  "mills z = np_exp (norm_logpdf z - log_ndtr z)"

definition spec_beta_jac ::
  "obs_group \<Rightarrow> obs_group \<Rightarrow> obs_group \<Rightarrow> float64 list \<Rightarrow> float64 \<Rightarrow> nat \<Rightarrow> float64" where
  "spec_beta_jac left mid right b s j =
     - sum_over (\<lambda>ob. mills (z_left b s ob) * (fst ob ! j / s)) left
     + sum_over (\<lambda>ob. mills (z_right b s ob) * (fst ob ! j / s)) right
     + sum_over (\<lambda>ob. z_left b s ob * (fst ob ! j / s)) mid"

definition spec_sigma_jac ::
  "obs_group \<Rightarrow> obs_group \<Rightarrow> obs_group \<Rightarrow> float64 list \<Rightarrow> float64 \<Rightarrow> float64" where
  "spec_sigma_jac left mid right b s =
     - sum_over (\<lambda>ob. mills (z_left b s ob) * z_left b s ob) left
     + - sum_over (\<lambda>ob. mills (z_right b s ob) * z_right b s ob) right
     + sum_over (\<lambda>ob. z_left b s ob * z_left b s ob - 1) mid"

definition spec_neg_log_likelihood_der ::
  "obs_group \<Rightarrow> obs_group \<Rightarrow> obs_group \<Rightarrow> float64 list \<Rightarrow> float64 \<Rightarrow> float64 list" where
  "spec_neg_log_likelihood_der left mid right b s =
     map uminus (map (spec_beta_jac left mid right b s) [0..<length b]
                 @ [spec_sigma_jac left mid right b s / s])"

text \<open>
  The sign flip of a group: every response negated, the features kept.
\<close>

definition flip_group :: "obs_group \<Rightarrow> obs_group" where
  "flip_group g = map_option (map (\<lambda>ob. (fst ob, - snd ob))) g"

section \<open>The model class\<close>

text \<open>
  The attributes of a \<^verbatim>\<open>TobitModel\<close>. The fields \<open>ols_coef\<close>, \<open>coef\<close>, \<open>intercept\<close>
  and \<open>sigma\<close> are the attributes \<^verbatim>\<open>ols_coef_\<close>, \<^verbatim>\<open>coef_\<close>, \<^verbatim>\<open>intercept_\<close> and
  \<^verbatim>\<open>sigma_\<close> (a name cannot end with an underscore here).
\<close>

record TobitModel =
  fit_intercept :: bool
  ols_coef :: "float64 list option"
  ols_intercept :: "float64 option"
  coef :: "float64 list option"
  intercept :: "float64 option"
  sigma :: "float64 option"

text \<open>\<^verbatim>\<open>TobitModel.__init__\<close>\<close>

definition TobitModel_init :: "bool \<Rightarrow> TobitModel" where
  "TobitModel_init fi =
     \<lparr>fit_intercept = fi, ols_coef = None, ols_intercept = None,
      coef = None, intercept = None, sigma = None\<rparr>"

text \<open>
  \<^verbatim>\<open>TobitModel.predict\<close>: \<^verbatim>\<open>self.intercept_ + np.dot(x, self.coef_)\<close>. The product is
  evaluated before the sum. numpy multiplies and adds entry by entry, so an attribute
  that is still \<^verbatim>\<open>None\<close> raises TypeError at the first entry it meets, and meets none in
  an array without entries: a feature matrix without rows or without columns multiplied
  by \<^verbatim>\<open>None\<close> is an array without entries (written \<open>[]\<close>), and so is \<^verbatim>\<open>None\<close> added to an
  empty product.
\<close>

definition predict :: "TobitModel \<Rightarrow> float64 list list \<Rightarrow> error + float64 list" where
  "predict self x =
     (case coef self of
        None \<Rightarrow> (if concat x = [] then Inr [] else Inl TypeError)
      | Some c \<Rightarrow>
          and_then (np_dot_mv x c) (\<lambda>d.
            (case intercept self of
               None \<Rightarrow> (if d = [] then Inr [] else Inl TypeError)
             | Some i \<Rightarrow> Inr (map (\<lambda>v. i + v) d))))"

text \<open>
  \<^verbatim>\<open>sklearn.metrics.mean_absolute_error(y_true, y_pred)\<close>, the default scoring function:
  it raises ValueError on inputs of different lengths, on empty inputs and on inputs
  that hold NaN or an infinity.
\<close>

definition mean_absolute_error :: "float64 list \<Rightarrow> float64 list \<Rightarrow> error + float64" where
  "mean_absolute_error y_true y_pred =
     (if length y_true \<noteq> length y_pred then Inl ValueError
      else if y_true = [] then Inl ValueError
      else if list_all isfinite y_true \<and> list_all isfinite y_pred
      then Inr (np_mean (map2 (\<lambda>p t. \<bar>p - t\<bar>) y_pred y_true))
      else Inl ValueError)"

text \<open>
  \<^verbatim>\<open>TobitModel.score(x, y, scoring_function)\<close>: the scoring function is given \<open>y\<close> and
  \<^verbatim>\<open>np.dot(x, self.coef_)\<close>, which without coefficients is a TypeError or, for a feature
  matrix without entries, an array without entries.
\<close>

definition score ::
  "TobitModel \<Rightarrow> float64 list list \<Rightarrow> float64 list
     \<Rightarrow> (float64 list \<Rightarrow> float64 list \<Rightarrow> error + float64) \<Rightarrow> error + float64" where
  "score self x y scoring_function =
     (case coef self of
        None \<Rightarrow> (if concat x = [] then scoring_function y [] else Inl TypeError)
      | Some c \<Rightarrow> and_then (np_dot_mv x c) (\<lambda>y_pred. scoring_function y y_pred))"

subsection \<open>fit\<close>

text \<open>What \<^verbatim>\<open>scipy.optimize.minimize\<close> returns, as far as \<^verbatim>\<open>fit\<close> reads it.\<close>

record OptimizeResult =
  res_x :: "float64 list"
  res_hess_inv :: "float64 list list"
  res_fun :: float64
  res_nit :: nat

text \<open>The summary table \<^verbatim>\<open>summary_df\<close> that \<^verbatim>\<open>fit\<close> prints: its index and its columns.\<close>

record Summary =
  sum_index :: "string list"
  sum_coef :: "float64 list"
  sum_std_err :: "float64 list"
  sum_z :: "float64 list"
  sum_p :: "float64 list"
  sum_lo :: "float64 list"
  sum_hi :: "float64 list"

text \<open>
  Lines 122 to 126: the copy of \<open>x\<close> with the intercept column
  (\<^verbatim>\<open>DataFrame.insert\<close> raises ValueError when the column exists already), or the call
  of \<^verbatim>\<open>x_copy.scale\<close>. A DataFrame has no method of that name. The attribute access
  \<^verbatim>\<open>x_copy.scale\<close> raises AttributeError, unless the frame has a column named
  \<^verbatim>\<open>scale\<close>: then the attribute is that column, a Series, and calling it raises
  TypeError.
\<close>

definition fit_design :: "TobitModel \<Rightarrow> DataFrame \<Rightarrow> error + DataFrame" where
  "fit_design self x =
     (if fit_intercept self then
        (if ''intercept'' \<in> set (columns x) then Inl ValueError
         else Inr (x\<lparr>columns := ''intercept'' # columns x, rows := map ((#) (Fin 1)) (rows x)\<rparr>))
      else if ''scale'' \<in> set (columns x) then Inl TypeError
      else Inl AttributeError)"

text \<open>
  Lines 127 to 133, the warm start. \<open>ols\<close> stands for
  \<^verbatim>\<open>LinearRegression(fit_intercept=False).fit(x_copy, y).coef_\<close>, the external
  least-squares solver; its prediction is the product of the design matrix and the
  coefficients.
\<close>

definition fit_warm_start ::
  "(DataFrame \<Rightarrow> float64 list \<Rightarrow> error + float64 list) \<Rightarrow> DataFrame \<Rightarrow> float64 list
     \<Rightarrow> error + (float64 list \<times> float64 list)" where
  "fit_warm_start ols x_copy y =
     and_then (ols x_copy y) (\<lambda>b0.
     and_then (np_dot_mv (rows x_copy) b0) (\<lambda>y_pred.
       (if length y \<noteq> length y_pred then Inl ValueError
        else
          (let resid = map2 (-) y y_pred;
               resid_var = np_var resid;
               s0 = np_sqrt resid_var;
               params0 = b0 @ [s0]
           in Inr (b0, params0)))))"

text \<open>
  Lines 140 to 148: the attributes set from the warm start and from the final
  parameter vector \<^verbatim>\<open>result.x\<close>. An index out of range raises IndexError, and the
  attributes assigned before it stay assigned.
\<close>

definition fit_extract ::
  "TobitModel \<Rightarrow> float64 list \<Rightarrow> float64 list \<Rightarrow> TobitModel \<times> (error + unit)" where
  "fit_extract self b0 result_x =
     (let self = self\<lparr>ols_coef := Some (tl b0)\<rparr> in
      if b0 = [] then (self, Inl IndexError)
      else
        (let self = self\<lparr>ols_intercept := Some (hd b0)\<rparr> in
         if fit_intercept self then
           (if length result_x < 2 then (self, Inl IndexError)
            else
              (let self = self\<lparr>intercept := Some (result_x ! 1)\<rparr>;
                   self = self\<lparr>coef := Some (butlast (tl result_x))\<rparr>;
                   self = self\<lparr>sigma := Some (last result_x)\<rparr>
               in (self, Inr ())))
         else
           (let self = self\<lparr>coef := Some (butlast result_x)\<rparr>;
                self = self\<lparr>intercept := Some 0\<rparr>
            in if result_x = [] then (self, Inl IndexError)
               else (self\<lparr>sigma := Some (last result_x)\<rparr>, Inr ()))))"

text \<open>
  A column of a DataFrame built from a dictionary of arrays with a given index: an array
  of the length of the index is taken as it is, an array of one entry is repeated to the
  length of the index, any other length raises ValueError.
\<close>

definition frame_column :: "nat \<Rightarrow> float64 list \<Rightarrow> error + float64 list" where
  "frame_column n c =
     (if length c = n then Inr c
      else if length c = 1 then Inr (replicate n (hd c))
      else Inl ValueError)"

text \<open>
  Lines 150 to 172: standard errors, z-values, p-values and the summary table. Without
  an intercept \<^verbatim>\<open>intercept_std_error\<close> is never assigned and its first use raises
  NameError.
\<close>

definition fit_inference :: "TobitModel \<Rightarrow> DataFrame \<Rightarrow> OptimizeResult \<Rightarrow> error + Summary" where
  "fit_inference self x result =
     (let hessian_inv = res_hess_inv result;
          std_errors = map np_sqrt (np_diag hessian_inv)
      in
      if fit_intercept self \<and> std_errors = [] then Inl IndexError
      else
        (let coef_std_errors =
               (if fit_intercept self then butlast (tl std_errors) else butlast std_errors)
         in
         (case coef self of None \<Rightarrow> Inl TypeError
          | Some co \<Rightarrow>
         and_then (np_broadcast (/) co coef_std_errors) (\<lambda>z_values.
         (let p_values = map (\<lambda>z. Fin 2 * (Fin 1 - norm_cdf \<bar>z\<bar>)) z_values in
          if \<not> fit_intercept self then Inl NameError
          else
            (let intercept_std_error = hd std_errors in
             (case intercept self of None \<Rightarrow> Inl TypeError
              | Some ic \<Rightarrow>
             and_then (np_broadcast (-) co (map (\<lambda>e. Fin (196 / 100) * e) coef_std_errors)) (\<lambda>lo.
             and_then (np_broadcast (+) co (map (\<lambda>e. Fin (196 / 100) * e) coef_std_errors)) (\<lambda>hi.
             (let index = ''const'' # columns x;
                  n = length index
              in
             and_then (frame_column n (ic # co)) (\<lambda>c_coef.
             and_then (frame_column n (intercept_std_error # coef_std_errors)) (\<lambda>c_std_err.
             and_then (frame_column n ((ic / intercept_std_error) # z_values)) (\<lambda>c_z.
             and_then (frame_column n (map np_round4
                         ((Fin 2 * (Fin 1 - norm_cdf \<bar>ic / intercept_std_error\<bar>)) # p_values))) (\<lambda>c_p.
             and_then (frame_column n ((ic - Fin (196 / 100) * intercept_std_error) # lo)) (\<lambda>c_lo.
             and_then (frame_column n ((ic + Fin (196 / 100) * intercept_std_error) # hi)) (\<lambda>c_hi.
               Inr \<lparr>sum_index = index, sum_coef = c_coef, sum_std_err = c_std_err,
                    sum_z = c_z, sum_p = c_p, sum_lo = c_lo, sum_hi = c_hi\<rparr>))))))))))))))))"

text \<open>
  \<^verbatim>\<open>TobitModel.fit(x, y, cens)\<close>. \<open>ols\<close> is the external least-squares solver and
  \<open>minimize\<close> the external optimizer (called with the objective, the start vector and
  the gradient); both may raise. The result is the object after the call, with either
  the exception that ended the call or the summary it printed.
\<close>

definition fit ::
  "(DataFrame \<Rightarrow> float64 list \<Rightarrow> error + float64 list)
     \<Rightarrow> ((float64 list \<Rightarrow> error + float64) \<Rightarrow> float64 list
          \<Rightarrow> (float64 list \<Rightarrow> error + float64 list) \<Rightarrow> error + OptimizeResult)
     \<Rightarrow> TobitModel \<Rightarrow> DataFrame \<Rightarrow> float64 list \<Rightarrow> int list
     \<Rightarrow> TobitModel \<times> (error + Summary)" where
  "fit ols minimize self x y cens =
     (case fit_design self x of Inl e \<Rightarrow> (self, Inl e)
      | Inr x_copy \<Rightarrow>
     (case fit_warm_start ols x_copy y of Inl e \<Rightarrow> (self, Inl e)
      | Inr (b0, params0) \<Rightarrow>
     (case split_left_right_censored x_copy y cens of Inl e \<Rightarrow> (self, Inl e)
      | Inr (warned, xs, ys) \<Rightarrow>
     (case minimize (\<lambda>params. tobit_neg_log_likelihood xs ys params) params0
             (\<lambda>params. tobit_neg_log_likelihood_der xs ys params) of
        Inl e \<Rightarrow> (self, Inl e)
      | Inr result \<Rightarrow>
     (case fit_extract self b0 (res_x result) of
        (self, Inl e) \<Rightarrow> (self, Inl e)
      | (self, Inr _) \<Rightarrow> (self, fit_inference self x result))))))"

section \<open>Properties of the partitioner\<close>

lemma zip_positions:
  assumes "length frame = length cens"
  shows "zip frame (map P cens) = map (\<lambda>i. (frame ! i, P (cens ! i))) [0..<length cens]"
  using assms by (intro nth_equalityI) simp_all

lemma bool_index_group:
  assumes "length frame = length cens"
  shows "bool_index frame (map (\<lambda>c. c = v) cens) = Inr (map ((!) frame) (group_rows cens v))"
  using assms
  by (simp add: bool_index_def group_rows_def zip_positions [OF assms] filter_map comp_def)

lemma group_rows_empty_iff: "group_rows cens v = [] \<longleftrightarrow> v \<notin> set cens"
  by (auto simp: group_rows_def filter_empty_conv in_set_conv_nth)

lemma split_loop_groups:
  assumes "length (rows x) = length cens" "length y = length cens"
  shows "split_loop x y cens vs xs ys
           = Inr (xs @ map (group_of (rows x) cens) vs, ys @ map (group_of y cens) vs)"
  using assms
  by (induction vs arbitrary: xs ys)
     (simp_all add: value_counts_def bool_index_group and_then_def group_of_def group_rows_empty_iff)

lemma split_returns:
  assumes "length (rows x) = length cens" "length y = length cens"
  shows "split_left_right_censored x y cens
           = Inr (if - 1 \<notin> set cens \<and> 1 \<notin> set cens then [no_censored_warning] else [],
                  map (group_of (rows x) cens) [- 1, 0, 1], map (group_of y cens) [- 1, 0, 1])"
  unfolding split_left_right_censored_def split_loop_groups [OF assms]
  by (simp add: and_then_def value_counts_def)

lemma group_rows_sorted: "sorted_wrt (<) (group_rows cens v)"
  by (simp add: group_rows_def sorted_wrt_filter)

lemma group_rows_disjoint:
  "u \<noteq> v \<Longrightarrow> set (group_rows cens u) \<inter> set (group_rows cens v) = {}"
  by (auto simp: group_rows_def)

lemma group_of_not_empty: "group_of frame cens v \<noteq> Some []"
  by (simp add: group_of_def)

text \<open>Every position is counted once: in one of the three groups or among the other codes.\<close>

lemma group_rows_count:
  "length (group_rows cens (- 1)) + length (group_rows cens 0) + length (group_rows cens 1)
     + length (filter (\<lambda>i. cens ! i \<notin> {- 1, 0, 1}) [0..<length cens]) = length cens"
proof -
  have "length (filter (\<lambda>i. cens ! i = - 1) ns) + length (filter (\<lambda>i. cens ! i = 0) ns)
          + length (filter (\<lambda>i. cens ! i = 1) ns)
          + length (filter (\<lambda>i. cens ! i \<notin> {- 1, 0, 1}) ns) = length ns" for ns
    by (induction ns) auto
  from this [of "[0..<length cens]"] show ?thesis by (simp add: group_rows_def)
qed

lemma other_codes_empty:
  assumes "set cens \<subseteq> {- 1, 0, 1}"
  shows "filter (\<lambda>i. cens ! i \<notin> {- 1, 0, 1}) [0..<length cens] = []"
  using assms by (auto simp: filter_empty_conv subset_iff)

lemma other_codes_nonempty:
  assumes "\<not> set cens \<subseteq> {- 1, 0, 1}"
  shows "0 < length (filter (\<lambda>i. cens ! i \<notin> {- 1, 0, 1}) [0..<length cens])"
proof -
  from assms obtain c where "c \<in> set cens" "c \<notin> {- 1, 0, 1}" by blast
  then obtain i where "i < length cens" "cens ! i \<notin> {- 1, 0, 1}"
    by (metis in_set_conv_nth)
  then have "i \<in> set (filter (\<lambda>i. cens ! i \<notin> {- 1, 0, 1}) [0..<length cens])" by simp
  then show ?thesis by (metis length_pos_if_in_set)
qed

text \<open>
  C5, as stated: every observation of any dataset is in exactly one of the three groups.
  It fails for an observation whose code is not one of -1, 0, 1: the dataset of one
  observation with code 2 is split into three absent groups.
\<close>

theorem split_drops_other_code:
  "split_left_right_censored \<lparr>columns = [''a''], rows = [[Fin 5]]\<rparr> [Fin 7] [2]
     = Inr ([no_censored_warning], [None, None, None], [None, None, None])"
  by (simp add: split_left_right_censored_def value_counts_def and_then_def)

text \<open>
  C5, amended: for any dataset (features, responses and codes of one length) the
  partitioner returns, for the codes -1, 0 and 1 in this order, the observations with
  that code, features and responses in the same input order; a code without observations
  gives \<open>None\<close>, never an empty group; no position is in two groups; and when every code
  is -1, 0 or 1 the sizes of the three groups add up to the number of observations.
\<close>

theorem split_partition:
  assumes "length (rows x) = length cens" and "length y = length cens"
  shows "split_left_right_censored x y cens
           = Inr (if - 1 \<notin> set cens \<and> 1 \<notin> set cens then [no_censored_warning] else [],
                  map (group_of (rows x) cens) [- 1, 0, 1], map (group_of y cens) [- 1, 0, 1])
         \<and> (\<forall>v. sorted_wrt (<) (group_rows cens v))
         \<and> (\<forall>v. group_of (rows x) cens v \<noteq> Some [] \<and> group_of y cens v \<noteq> Some [])
         \<and> (\<forall>u v. u \<noteq> v \<longrightarrow> set (group_rows cens u) \<inter> set (group_rows cens v) = {})
         \<and> (set cens \<subseteq> {- 1, 0, 1} \<longrightarrow>
               length (group_rows cens (- 1)) + length (group_rows cens 0)
                 + length (group_rows cens 1) = length cens)"
proof -
  have "set cens \<subseteq> {- 1, 0, 1} \<longrightarrow>
          length (group_rows cens (- 1)) + length (group_rows cens 0)
            + length (group_rows cens 1) = length cens"
    using group_rows_count [of cens] other_codes_empty [of cens] by auto
  then show ?thesis
    by (simp add: split_returns [OF assms] group_rows_sorted group_of_not_empty
        group_rows_disjoint)
qed

theorem split_partition_witness:
  "split_left_right_censored \<lparr>columns = [''a''], rows = [[Fin 1], [Fin 2], [Fin 3], [Fin 4]]\<rparr>
       [Fin 10, Fin 20, Fin 30, Fin 40] [1, 0, - 1, 0]
     = Inr ([], [Some [[Fin 3]], Some [[Fin 2], [Fin 4]], Some [[Fin 1]]],
                [Some [Fin 30], Some [Fin 20, Fin 40], Some [Fin 10]])
   \<and> length (group_rows [1, 0, - 1, 0] (- 1)) + length (group_rows [1, 0, - 1, 0] 0)
        + length (group_rows [1, 0, - 1, 0] 1) = 4"
  using split_partition [of "\<lparr>columns = [''a''], rows = [[Fin 1], [Fin 2], [Fin 3], [Fin 4]]\<rparr>"
      "[1, 0, - 1, 0]" "[Fin 10, Fin 20, Fin 30, Fin 40]"]
  by (simp add: group_of_def group_rows_def upt_rec)

text \<open>
  C6, as stated: a code outside -1, 0, 1 makes the partitioner raise. It does not: with
  the codes 0 and 5 it returns, and the observation with code 5 is in no group.
\<close>

theorem split_invalid_code_returns:
  "split_left_right_censored \<lparr>columns = [''a''], rows = [[Fin 1], [Fin 2]]\<rparr>
       [Fin 3, Fin 4] [0, 5]
     = Inr ([no_censored_warning], [None, Some [[Fin 1]], None], [None, Some [Fin 3], None])"
  by (simp add: split_left_right_censored_def value_counts_def and_then_def bool_index_def)

text \<open>
  C6, amended: for every input (features, responses and codes of one length) whose
  codes contain a value outside -1, 0, 1 the partitioner raises no error. It returns
  the groups of the codes -1, 0 and 1; the observations with another code are in none
  of them, so the three groups hold fewer observations than the input.
\<close>

theorem split_invalid_code_no_error:
  assumes "length (rows x) = length cens" and "length y = length cens"
    and "\<not> set cens \<subseteq> {- 1, 0, 1}"
  shows "split_left_right_censored x y cens
           = Inr (if - 1 \<notin> set cens \<and> 1 \<notin> set cens then [no_censored_warning] else [],
                  map (group_of (rows x) cens) [- 1, 0, 1], map (group_of y cens) [- 1, 0, 1])
         \<and> (\<forall>i v. cens ! i \<notin> {- 1, 0, 1} \<and> v \<in> {- 1, 0, 1} \<longrightarrow> i \<notin> set (group_rows cens v))
         \<and> length (group_rows cens (- 1)) + length (group_rows cens 0)
              + length (group_rows cens 1) < length cens"
proof -
  have "\<forall>i v. cens ! i \<notin> {- 1, 0, 1} \<and> v \<in> {- 1, 0, 1} \<longrightarrow> i \<notin> set (group_rows cens v)"
    by (auto simp: group_rows_def)
  moreover have "length (group_rows cens (- 1)) + length (group_rows cens 0)
                   + length (group_rows cens 1) < length cens"
    using group_rows_count [of cens] other_codes_nonempty [OF assms(3)] by linarith
  ultimately show ?thesis
    by (simp add: split_returns [OF assms(1,2)])
qed

theorem split_invalid_code_no_error_witness:
  "split_left_right_censored \<lparr>columns = [''a''], rows = [[Fin 1], [Fin 2], [Fin 3]]\<rparr>
       [Fin 10, Fin 20, Fin 30] [7, 1, 0]
     = Inr ([], [None, Some [[Fin 3]], Some [[Fin 2]]], [None, Some [Fin 30], Some [Fin 20]])
   \<and> 0 \<notin> set (group_rows [7, 1, 0] 1)
   \<and> length (group_rows [7, 1, 0] (- 1)) + length (group_rows [7, 1, 0] 0)
        + length (group_rows [7, 1, 0] 1) < 3"
  using split_invalid_code_no_error [of "\<lparr>columns = [''a''], rows = [[Fin 1], [Fin 2], [Fin 3]]\<rparr>"
      "[7, 1, 0]" "[Fin 10, Fin 20, Fin 30]"]
  by (simp add: group_of_def group_rows_def upt_rec)

section \<open>Properties of the model class\<close>

text \<open>
  What lines 142 to 148 store when the intercept is enabled: entry 1 of the final vector
  as the intercept, the entries from 1 to the last but one as the coefficients, the last
  entry as the scale. Entry 0 is not read.
\<close>

lemma fit_extract_with_intercept:
  assumes "fit_intercept self" and "b0 \<noteq> []" and "2 \<le> length result_x"
  shows "fit_extract self b0 result_x
           = (self\<lparr>ols_coef := Some (tl b0), ols_intercept := Some (hd b0),
                    intercept := Some (result_x ! 1), coef := Some (butlast (tl result_x)),
                    sigma := Some (last result_x)\<rparr>, Inr ())"
  using assms by (simp add: fit_extract_def)

text \<open>
  C3: with the intercept enabled, the fitted intercept is the first entry of the
  optimizer's final vector. The code reads the second entry (\<^verbatim>\<open>result.x[1]\<close>), which is
  also the first fitted coefficient: when the optimizer ends at \<open>[2, 3, 1]\<close> the fitted
  intercept is 3, not 2.
\<close>

theorem fit_intercept_is_second_entry:
  "fst (fit (\<lambda>x_copy y. Inr [Fin 2, Fin 3])
          (\<lambda>f params0 jac. Inr \<lparr>res_x = [Fin 2, Fin 3, Fin 1],
              res_hess_inv = [[Fin 1, Fin 0, Fin 0], [Fin 0, Fin 1, Fin 0], [Fin 0, Fin 0, Fin 1]],
              res_fun = Fin 0, res_nit = 1\<rparr>)
          (TobitModel_init True) \<lparr>columns = [''a''], rows = [[Fin 1], [Fin 2]]\<rparr>
          [Fin 5, Fin 8] [0, 0])
     = \<lparr>fit_intercept = True, ols_coef = Some [Fin 3], ols_intercept = Some (Fin 2),
        coef = Some [Fin 3], intercept = Some (Fin 3), sigma = Some (Fin 1)\<rparr>"
  by (simp add: fit_def fit_design_def fit_warm_start_def fit_extract_def TobitModel_init_def
      np_dot_mv_def and_then_def split_left_right_censored_def value_counts_def bool_index_def
      split: prod.splits sum.splits)

text \<open>
  A model that is not fitted raises TypeError on a feature matrix with an entry, and
  returns an array without entries on a feature matrix without rows.
\<close>

lemma predict_unfitted:
  "predict (TobitModel_init True) [[Fin 1]] = Inl TypeError"
  "predict (TobitModel_init True) [] = Inr []"
  by (simp_all add: predict_def TobitModel_init_def)

text \<open>
  C8: the score is the metric of the responses and the predictions of the model. The
  code leaves the intercept out of the prediction it scores: for the model with
  intercept 2 and coefficient 3, the feature 1 and the response 5, the prediction is 5
  and its mean absolute error is 0, but the score is 2.
\<close>

theorem score_omits_intercept:
  "score \<lparr>fit_intercept = True, ols_coef = Some [Fin 3], ols_intercept = Some (Fin 2),
          coef = Some [Fin 3], intercept = Some (Fin 2), sigma = Some (Fin 1)\<rparr>
       [[Fin 1]] [Fin 5] mean_absolute_error = Inr (Fin 2)
   \<and> predict \<lparr>fit_intercept = True, ols_coef = Some [Fin 3], ols_intercept = Some (Fin 2),
          coef = Some [Fin 3], intercept = Some (Fin 2), sigma = Some (Fin 1)\<rparr>
       [[Fin 1]] = Inr [Fin 5]
   \<and> mean_absolute_error [Fin 5] [Fin 5] = Inr (Fin 0)"
  by (simp add: score_def predict_def mean_absolute_error_def np_dot_mv_def and_then_def
      np_mean_def zero_float64_def minus_float64_def)

text \<open>
  Without the intercept, \<^verbatim>\<open>fit\<close> ends at line 126, before the solver, the partitioner and
  the optimizer: with AttributeError, or with TypeError for a frame that has a column
  named \<^verbatim>\<open>scale\<close>. The object is as it was.
\<close>

lemma fit_no_intercept_exception:
  assumes "\<not> fit_intercept self"
  shows "fit ols minimize self x y cens
           = (self, Inl (if ''scale'' \<in> set (columns x) then TypeError else AttributeError))"
  using assms by (simp add: fit_def fit_design_def)

lemma fit_no_intercept_attribute_error:
  "fit ols minimize (TobitModel_init False) \<lparr>columns = [''a''], rows = [[Fin 1], [Fin 2]]\<rparr> y cens
     = (TobitModel_init False, Inl AttributeError)"
  by (simp add: fit_no_intercept_exception TobitModel_init_def)

lemma fit_no_intercept_type_error:
  "fit ols minimize (TobitModel_init False)
       \<lparr>columns = [''a'', ''scale''], rows = [[Fin 1, Fin 5], [Fin 2, Fin 6]]\<rparr> y cens
     = (TobitModel_init False, Inl TypeError)"
  by (simp add: fit_no_intercept_exception TobitModel_init_def)

text \<open>
  C10: for every call of \<^verbatim>\<open>fit\<close> without the intercept there is an exception that the
  call raises whatever the solver, the optimizer, the responses and the codes are (so
  before the optimizer is invoked), and the object is left as it was: no fitted
  attribute is set.
\<close>

theorem fit_no_intercept_raises:
  assumes "\<not> fit_intercept self"
  shows "\<exists>e. \<forall>ols minimize y cens. fit ols minimize self x y cens = (self, Inl e)"
  using fit_no_intercept_exception [OF assms] by blast

theorem fit_no_intercept_raises_witness:
  "\<exists>e. \<forall>ols minimize y cens.
      fit ols minimize (TobitModel_init False) \<lparr>columns = [''a''], rows = [[Fin 1], [Fin 2]]\<rparr> y cens
        = (\<lparr>fit_intercept = False, ols_coef = None, ols_intercept = None,
            coef = None, intercept = None, sigma = None\<rparr>, Inl e)"
  using fit_no_intercept_raises [of "TobitModel_init False"
      "\<lparr>columns = [''a''], rows = [[Fin 1], [Fin 2]]\<rparr>"]
  by (simp add: TobitModel_init_def)

section \<open>Properties of the objective and the gradient\<close>

text \<open>
  Whatever the dataset, the last entry of a gradient is a quotient by the scale as it
  is, so at the scale 0 it is never finite.
\<close>

lemma div_zero_not_finite: "\<not> isfinite (- (a / Fin 0))"
  by (cases a) simp_all

lemma gradient_shape:
  assumes "tobit_neg_log_likelihood_der xs ys params = Inr g"
  shows "\<exists>beta_jac sigma_jac. g = map uminus (beta_jac @ [sigma_jac / last params])"
  using assms
  by (auto simp: tobit_neg_log_likelihood_der_def and_then_def Let_def
      split: list.splits sum.splits prod.splits if_splits)

lemma gradient_scale_zero_not_finite:
  assumes "tobit_neg_log_likelihood_der xs ys (b @ [Fin 0]) = Inr g"
  shows "g \<noteq> [] \<and> \<not> isfinite (last g)"
  using gradient_shape [OF assms] by (auto simp: div_zero_not_finite)

text \<open>
  C4: a non-positive scale is floored in the objective and in the gradient, so both
  return finite values. The objective floors the scale only inside \<^verbatim>\<open>math.log\<close> and
  the gradient nowhere; both divide by the scale as it is. For one uncensored
  observation (feature 1, response 1), the coefficient 0 and the scale 0, the gradient
  is \<open>[-inf, -inf]\<close> and the objective is \<open>inf\<close>.
\<close>

theorem scale_zero_not_finite:
  "tobit_neg_log_likelihood_der [None, Some [[Fin 1]], None] [None, Some [Fin 1], None]
       [Fin 0, Fin 0] = Inr [NInf, NInf]
   \<and> tobit_neg_log_likelihood [None, Some [[Fin 1]], None] [None, Some [Fin 1], None]
       [Fin 0, Fin 0] = Inr PInf"
  by (simp add: tobit_neg_log_likelihood_der_def tobit_neg_log_likelihood_def der_mid_def
      resid_left_def np_dot_opt_def np_dot_mv_def np_broadcast_def np_dot_vm_def np_inplace_def
      and_then_def np_square_def zero_float64_def one_float64_def minus_float64_def
      py_max_def resolution_def)

subsection \<open>Arithmetic of the floats\<close>

lemma float_neg_neg [simp]: "- (- a) = (a :: float64)"
  by (cases a) simp_all

lemma float_neg_zero [simp]: "- (0 :: float64) = 0"
  by (simp add: zero_float64_def)

lemma float_neg_add: "- (a + c) = - a + - (c :: float64)"
  by (cases a; cases c) simp_all

lemma float_mult_neg: "a * (- c) = - (a * (c :: float64))"
  by (cases a; cases c) auto

lemma float_div_neg: "(- a) / c = - (a / (c :: float64))"
  by (cases a; cases c) auto

lemma norm_logpdf_even: "norm_logpdf (- z) = norm_logpdf z"
  by (cases z) simp_all

lemma sum_list_neg: "sum_list (map (\<lambda>a. - f a) l) = - sum_list (map f l :: float64 list)"
  by (induction l) (simp_all add: float_neg_add)

lemma zip_same: "map F (zip (map g l) (map h l)) = map (\<lambda>a. F (g a, h a)) l"
  by (induction l) simp_all

subsection \<open>The residuals of a group\<close>

lemma np_dot_mv_obs:
  assumes "list_all (\<lambda>ob. length (fst ob) = length b) obs"
  shows "np_dot_mv (map fst obs) b = Inr (map (\<lambda>ob. row_dot (fst ob) b) obs)"
  using assms by (simp add: np_dot_mv_def row_dot_def list_all_iff comp_def)

lemma resid_left_obs:
  assumes "list_all (\<lambda>ob. length (fst ob) = length b) obs"
  shows "resid_left (Some (map fst obs)) (map snd obs) b
           = Inr (map (\<lambda>ob. snd ob - row_dot (fst ob) b) obs)"
  by (simp add: resid_left_def np_dot_opt_def np_dot_mv_obs [OF assms] and_then_def
      np_broadcast_def zip_same)

lemma resid_right_obs:
  assumes "list_all (\<lambda>ob. length (fst ob) = length b) obs"
  shows "resid_right (Some (map fst obs)) (map snd obs) b
           = Inr (map (\<lambda>ob. row_dot (fst ob) b - snd ob) obs)"
  by (simp add: resid_right_def np_dot_opt_def np_dot_mv_obs [OF assms] and_then_def
      np_broadcast_def zip_same)

subsection \<open>The objective\<close>

lemma math_log_floor: "math_log (py_max resolution s) = Inr (floored_log s)"
  by (cases s) (simp_all add: floored_log_def py_max_def resolution_def)

lemma neg_log_likelihood_eq:
  assumes "rows_fit b left" "rows_fit b mid" "rows_fit b right"
  shows "tobit_neg_log_likelihood (xs_of [left, mid, right]) (ys_of [left, mid, right]) (b @ [s])
           = Inr (spec_neg_log_likelihood (floored_log s) left mid right b s)"
  using assms
  by (cases left; cases mid; cases right)
     (simp_all add: tobit_neg_log_likelihood_def xs_of_def ys_of_def rows_fit_def
       resid_left_obs resid_right_obs and_then_def math_log_floor spec_neg_log_likelihood_def
       sum_over_def z_left_def z_right_def comp_def)

text \<open>
  C1, as stated: for every parameter vector the mid group contributes
  \<open>log \<phi>(z\<^sub>i) - log \<sigma>\<close>. For a scale below the resolution \<open>1e-15\<close> the code subtracts the
  logarithm of the resolution instead: with one uncensored observation (feature 1,
  response 0), the coefficient 0 and the scale \<open>1e-16\<close> the objective is not the stated
  sum, it is the sum with \<open>log 1e-15\<close>.
\<close>

theorem neg_log_likelihood_below_resolution:
  "tobit_neg_log_likelihood [None, Some [[Fin 1]], None] [None, Some [Fin 0], None]
       [Fin 0, Fin (1 / 10 ^ 16)]
     \<noteq> Inr (spec_neg_log_likelihood (np_log (Fin (1 / 10 ^ 16)))
              None (Some [([Fin 1], Fin 0)]) None [Fin 0] (Fin (1 / 10 ^ 16)))
   \<and> tobit_neg_log_likelihood [None, Some [[Fin 1]], None] [None, Some [Fin 0], None]
       [Fin 0, Fin (1 / 10 ^ 16)]
     = Inr (spec_neg_log_likelihood (np_log (Fin (1 / 10 ^ 15)))
              None (Some [([Fin 1], Fin 0)]) None [Fin 0] (Fin (1 / 10 ^ 16)))"
  by (simp add: tobit_neg_log_likelihood_def resid_left_def np_dot_opt_def np_dot_mv_def
      np_broadcast_def and_then_def minus_float64_def py_max_def resolution_def
      spec_neg_log_likelihood_def sum_over_def z_left_def row_dot_def zero_float64_def)

text \<open>
  C1, amended: for every partitioned dataset whose feature rows have one entry per
  coefficient and every parameter vector \<open>(b, s)\<close>, the objective returns the negative of
  the sum of \<open>log \<Phi>((y\<^sub>i - x\<^sub>i\<cdot>b)/s)\<close> over the left group, \<open>log \<Phi>((x\<^sub>i\<cdot>b - y\<^sub>i)/s)\<close> over the
  right group and \<open>log \<phi>((y\<^sub>i - x\<^sub>i\<cdot>b)/s) - log (max (1e-15, s))\<close> over the mid group, an
  absent group contributing 0.
\<close>

theorem neg_log_likelihood_formula:
  assumes "rows_fit b left" and "rows_fit b mid" and "rows_fit b right"
  shows "tobit_neg_log_likelihood (xs_of [left, mid, right]) (ys_of [left, mid, right]) (b @ [s])
           = Inr (spec_neg_log_likelihood (np_log (py_max resolution s)) left mid right b s)"
  using neg_log_likelihood_eq [OF assms] by (simp add: floored_log_def)

theorem neg_log_likelihood_formula_witness:
  "tobit_neg_log_likelihood [Some [[Fin 1, Fin 2]], Some [[Fin 1, Fin 3]], None]
       [Some [Fin 0], Some [Fin 7], None] [Fin 1, Fin 2, Fin 1]
     = Inr (- (log_ndtr (Fin (- 5)) + norm_logpdf (Fin 0)))"
  using neg_log_likelihood_formula [of "[Fin 1, Fin 2]" "Some [([Fin 1, Fin 2], Fin 0)]"
      "Some [([Fin 1, Fin 3], Fin 7)]" None "Fin 1"]
  by (simp add: xs_of_def ys_of_def rows_fit_def spec_neg_log_likelihood_def sum_over_def
      z_left_def row_dot_def py_max_def resolution_def norm_logcdf_def minus_float64_def
      zero_float64_def)

subsection \<open>The sign flip\<close>

lemma row_dot_neg: "row_dot x (map uminus b) = - row_dot x b"
  unfolding row_dot_def
  by (induction x b rule: list_induct2') (simp_all add: float_neg_add float_mult_neg)

lemma z_left_flip: "z_left (map uminus b) s (fst ob, - snd ob) = z_right b s ob"
  by (simp add: z_left_def z_right_def row_dot_neg minus_float64_def add.commute)

lemma z_right_flip: "z_right (map uminus b) s (fst ob, - snd ob) = z_left b s ob"
  by (simp add: z_left_def z_right_def row_dot_neg minus_float64_def add.commute)

lemma z_left_flip_neg: "z_left (map uminus b) s (fst ob, - snd ob) = - z_left b s ob"
  by (simp add: z_left_def row_dot_neg minus_float64_def float_neg_add flip: float_div_neg)

lemma sum_over_flip: "sum_over f (flip_group g) = sum_over (\<lambda>ob. f (fst ob, - snd ob)) g"
  by (cases g) (simp_all add: sum_over_def flip_group_def comp_def)

lemma rows_fit_flip: "rows_fit (map uminus b) (flip_group g) = rows_fit b g"
  by (cases g) (simp_all add: rows_fit_def flip_group_def list_all_iff)

lemma spec_flip:
  "spec_neg_log_likelihood lg (flip_group right) (flip_group mid) (flip_group left) (map uminus b) s
     = spec_neg_log_likelihood lg left mid right b s"
proof -
  have l: "sum_over (\<lambda>ob. norm_logcdf (z_left (map uminus b) s ob)) (flip_group right)
             = sum_over (\<lambda>ob. norm_logcdf (z_right b s ob)) right"
    by (simp add: sum_over_flip z_left_flip)
  have r: "sum_over (\<lambda>ob. norm_logcdf (z_right (map uminus b) s ob)) (flip_group left)
             = sum_over (\<lambda>ob. norm_logcdf (z_left b s ob)) left"
    by (simp add: sum_over_flip z_right_flip)
  have m: "sum_over (\<lambda>ob. norm_logpdf (z_left (map uminus b) s ob) - lg) (flip_group mid)
             = sum_over (\<lambda>ob. norm_logpdf (z_left b s ob) - lg) mid"
    by (simp add: sum_over_flip z_left_flip_neg norm_logpdf_even)
  show ?thesis
    by (simp add: spec_neg_log_likelihood_def l r m add.commute)
qed

text \<open>
  C9, as stated: the responses negated, the left and right groups swapped and the
  coefficients negated with the intercept unchanged give the same objective. With an
  intercept column they do not: for one uncensored observation with the features
  \<open>(1, 1)\<close> and the response 5, the parameters \<open>(1, 2, 1)\<close> give \<open>log (sqrt (2 \<pi>)) + 2\<close>,
  and the response \<open>-5\<close> with the parameters \<open>(1, -2, 1)\<close> gives \<open>log (sqrt (2 \<pi>)) + 8\<close>.
\<close>

theorem sign_flip_keeping_intercept_differs:
  "tobit_neg_log_likelihood [None, Some [[Fin 1, Fin 1]], None] [None, Some [Fin (- 5)], None]
       [Fin 1, Fin (- 2), Fin 1] = Inr (Fin (ln (sqrt (2 * pi)) + 8))
   \<and> tobit_neg_log_likelihood [None, Some [[Fin 1, Fin 1]], None] [None, Some [Fin 5], None]
       [Fin 1, Fin 2, Fin 1] = Inr (Fin (ln (sqrt (2 * pi)) + 2))"
  by (simp add: tobit_neg_log_likelihood_def resid_left_def np_dot_opt_def np_dot_mv_def
      np_broadcast_def and_then_def minus_float64_def py_max_def resolution_def)

text \<open>
  C9, amended: for every partitioned dataset whose feature rows have one entry per
  coefficient and every parameter vector \<open>(b, s)\<close>, negating all responses, swapping the
  left and right groups and negating every entry of \<open>b\<close> (the coefficient of the
  intercept column included, the scale unchanged) yields the same value of the
  objective, and it is a value, not an exception.
\<close>

theorem sign_flip_symmetry:
  assumes "rows_fit b left" and "rows_fit b mid" and "rows_fit b right"
  shows "tobit_neg_log_likelihood (xs_of [flip_group right, flip_group mid, flip_group left])
             (ys_of [flip_group right, flip_group mid, flip_group left]) (map uminus b @ [s])
           = tobit_neg_log_likelihood (xs_of [left, mid, right]) (ys_of [left, mid, right]) (b @ [s])
         \<and> tobit_neg_log_likelihood (xs_of [left, mid, right]) (ys_of [left, mid, right]) (b @ [s])
           = Inr (spec_neg_log_likelihood (floored_log s) left mid right b s)"
  using assms
  by (simp add: neg_log_likelihood_eq rows_fit_flip spec_flip)

theorem sign_flip_symmetry_witness:
  "tobit_neg_log_likelihood [Some [[Fin 1, Fin 4]], Some [[Fin 1, Fin 1]], None]
       [Some [Fin (- 9)], Some [Fin (- 5)], None] [Fin (- 1), Fin (- 2), Fin 1]
     = tobit_neg_log_likelihood [None, Some [[Fin 1, Fin 1]], Some [[Fin 1, Fin 4]]]
       [None, Some [Fin 5], Some [Fin 9]] [Fin 1, Fin 2, Fin 1]
   \<and> tobit_neg_log_likelihood [None, Some [[Fin 1, Fin 1]], Some [[Fin 1, Fin 4]]]
       [None, Some [Fin 5], Some [Fin 9]] [Fin 1, Fin 2, Fin 1]
     = Inr (- (log_ndtr (Fin 0) + norm_logpdf (Fin 2)))"
  using sign_flip_symmetry [of "[Fin 1, Fin 2]" None "Some [([Fin 1, Fin 1], Fin 5)]"
      "Some [([Fin 1, Fin 4], Fin 9)]" "Fin 1"]
  by (simp add: xs_of_def ys_of_def rows_fit_def flip_group_def spec_neg_log_likelihood_def
      sum_over_def z_left_def z_right_def row_dot_def floored_log_def py_max_def resolution_def
      norm_logcdf_def minus_float64_def zero_float64_def)

subsection \<open>The gradient\<close>

lemma np_dot_vm_obs:
  assumes "list_all (\<lambda>ob. length (fst ob) = length b) obs"
  shows "np_dot_vm (length b) (map w obs) (map (\<lambda>ob. map (\<lambda>v. v / s) (fst ob)) obs)
           = Inr (map (\<lambda>j. sum_list (map (\<lambda>ob. w ob * (fst ob ! j / s)) obs)) [0..<length b])"
proof -
  have "sum_list (map2 (\<lambda>vi row. vi * row ! j) (map w obs)
                    (map (\<lambda>ob. map (\<lambda>v. v / s) (fst ob)) obs))
          = sum_list (map (\<lambda>ob. w ob * (fst ob ! j / s)) obs)" if "j < length b" for j
  proof -
    have "map2 (\<lambda>vi row. vi * row ! j) (map w obs) (map (\<lambda>ob. map (\<lambda>v. v / s) (fst ob)) obs)
            = map (\<lambda>ob. w ob * (map (\<lambda>v. v / s) (fst ob) ! j)) obs"
      by (simp add: zip_same)
    also have "\<dots> = map (\<lambda>ob. w ob * (fst ob ! j / s)) obs"
      using assms that by (intro map_cong) (auto simp: list_all_iff)
    finally show ?thesis by simp
  qed
  then show ?thesis
    by (simp add: np_dot_vm_def)
qed

lemma np_dot_vv_obs:
  "np_dot_vv (map w obs) (map z obs) = Inr (sum_list (map (\<lambda>ob. w ob * z ob) obs))"
  by (simp add: np_dot_vv_def zip_same)

lemma np_inplace_map:
  "np_inplace f (map g [0..<k]) (map h [0..<k]) = Inr (map (\<lambda>j. f (g j) (h j)) [0..<k])"
  by (simp add: np_inplace_def zip_same)

lemma der_left_obs:
  assumes "list_all (\<lambda>ob. length (fst ob) = length b) obs"
  shows "der_left (Some (map fst obs)) (map snd obs) b s (map g [0..<length b], sj)
           = Inr (map (\<lambda>j. g j - sum_list (map (\<lambda>ob. mills (z_left b s ob) * (fst ob ! j / s)) obs))
                    [0..<length b],
                  sj - sum_list (map (\<lambda>ob. mills (z_left b s ob) * z_left b s ob) obs))"
  by (simp add: der_left_def resid_left_obs [OF assms] and_then_def comp_def zip_same
      np_dot_vm_obs [OF assms] np_inplace_map np_dot_vv_obs mills_def z_left_def)

lemma der_right_obs:
  assumes "list_all (\<lambda>ob. length (fst ob) = length b) obs"
  shows "der_right (Some (map fst obs)) (map snd obs) b s (map g [0..<length b], sj)
           = Inr (map (\<lambda>j. g j + sum_list (map (\<lambda>ob. mills (z_right b s ob) * (fst ob ! j / s)) obs))
                    [0..<length b],
                  sj - sum_list (map (\<lambda>ob. mills (z_right b s ob) * z_right b s ob) obs))"
  by (simp add: der_right_def resid_right_obs [OF assms] and_then_def comp_def zip_same
      np_dot_vm_obs [OF assms] np_inplace_map np_dot_vv_obs mills_def z_right_def)

lemma der_mid_obs:
  assumes "list_all (\<lambda>ob. length (fst ob) = length b) obs"
  shows "der_mid (Some (map fst obs)) (map snd obs) b s (map g [0..<length b], sj)
           = Inr (map (\<lambda>j. g j + sum_list (map (\<lambda>ob. z_left b s ob * (fst ob ! j / s)) obs))
                    [0..<length b],
                  sj + sum_list (map (\<lambda>ob. z_left b s ob * z_left b s ob - 1) obs))"
  by (simp add: der_mid_def resid_left_obs [OF assms] and_then_def comp_def
      np_dot_vm_obs [OF assms] np_inplace_map np_square_def z_left_def)

lemma replicate_zero: "replicate k (0 :: float64) = map (\<lambda>j. 0) [0..<k]"
  by (simp add: map_replicate_const)

text \<open>
  C2: for every partitioned dataset whose feature rows have one entry per coefficient
  and every parameter vector \<open>(b, s)\<close>, the gradient function returns the negated vector
  of the coefficient entries and the scale entry of the specification: the left group
  contributes \<open>- \<Sum> ratio\<^sub>i * x\<^sub>i / s\<close> and \<open>- \<Sum> ratio\<^sub>i * z\<^sub>i\<close>, the right group
  \<open>+ \<Sum> ratio\<^sub>i * x\<^sub>i / s\<close> and \<open>- \<Sum> ratio\<^sub>i * z\<^sub>i\<close>, the mid group \<open>+ \<Sum> z\<^sub>i * x\<^sub>i / s\<close> and
  \<open>+ \<Sum> (z\<^sub>i\<^sup>2 - 1)\<close>, and the last entry is the accumulated scale contribution divided by
  the scale.
\<close>

theorem neg_log_likelihood_der_formula:
  assumes "rows_fit b left" and "rows_fit b mid" and "rows_fit b right"
  shows "tobit_neg_log_likelihood_der (xs_of [left, mid, right]) (ys_of [left, mid, right]) (b @ [s])
           = Inr (spec_neg_log_likelihood_der left mid right b s)"
  using assms
  by (cases left; cases mid; cases right)
     (simp_all add: tobit_neg_log_likelihood_der_def xs_of_def ys_of_def rows_fit_def
       replicate_zero der_left_obs der_right_obs der_mid_obs and_then_def
       spec_neg_log_likelihood_der_def spec_beta_jac_def spec_sigma_jac_def sum_over_def
       minus_float64_def)

theorem neg_log_likelihood_der_formula_witness:
  "tobit_neg_log_likelihood_der [None, Some [[Fin 1, Fin 3]], None] [None, Some [Fin 9], None]
       [Fin 1, Fin 2, Fin 2]
     = Inr [Fin (- (1 / 2)), Fin (- (3 / 2)), Fin 0]"
  using neg_log_likelihood_der_formula [of "[Fin 1, Fin 2]" None
      "Some [([Fin 1, Fin 3], Fin 9)]" None "Fin 2"]
  by (simp add: xs_of_def ys_of_def rows_fit_def spec_neg_log_likelihood_der_def
      spec_beta_jac_def spec_sigma_jac_def sum_over_def z_left_def row_dot_def upt_rec
      minus_float64_def zero_float64_def one_float64_def)

section \<open>Properties of the inference\<close>

lemma std_normal_cdf_zero: "std_normal_cdf 0 = 1 / 2"
  by (simp add: std_normal_cdf_def)

lemma float_div_nan [simp]: "a / NaN = NaN"
  by (cases a) simp_all

lemma float_add_nan [simp]: "a + NaN = NaN"
  by (cases a) simp_all

lemma float_mult_nan [simp]: "a * NaN = NaN"
  by (cases a) simp_all

lemma np_broadcast_same:
  "length a = length c \<Longrightarrow> np_broadcast f a c = Inr (map2 f a c)"
  by (simp add: np_broadcast_def)

lemma np_diag_length:
  assumes "length h = n" and "list_all (\<lambda>r. length r = n) h"
  shows "length (np_diag h) = n"
  using assms by (cases h) (simp_all add: np_diag_def)

lemma np_diag_nth:
  assumes "length h = n" and "list_all (\<lambda>r. length r = n) h" and "i < n"
  shows "np_diag h ! i = h ! i ! i"
  using assms by (cases h) (simp_all add: np_diag_def)

text \<open>
  With the intercept, a square inverse-curvature matrix of the size of the parameter
  vector and one column name per coefficient, the inference raises nothing: row \<open>i\<close> of
  the summary is computed from entry \<open>i\<close> of the diagonal.
\<close>

lemma fit_inference_summary:
  assumes "fit_intercept self" and "coef self = Some co" and "intercept self = Some ic"
    and "length (columns x) = length co"
    and "length (res_hess_inv result) = length co + 2"
    and "list_all (\<lambda>r. length r = length co + 2) (res_hess_inv result)"
  shows "fit_inference self x result =
     (let se = butlast (map np_sqrt (np_diag (res_hess_inv result)));
          z = map2 (/) (ic # co) se
      in Inr \<lparr>sum_index = ''const'' # columns x,
              sum_coef = ic # co,
              sum_std_err = se,
              sum_z = z,
              sum_p = map (\<lambda>z. np_round4 (Fin 2 * (Fin 1 - norm_cdf \<bar>z\<bar>))) z,
              sum_lo = map2 (\<lambda>c e. c - Fin (196 / 100) * e) (ic # co) se,
              sum_hi = map2 (\<lambda>c e. c + Fin (196 / 100) * e) (ic # co) se\<rparr>)"
proof -
  define h where "h = res_hess_inv result"
  define se where "se = map np_sqrt (np_diag h)"
  have len: "length se = length co + 2"
    using np_diag_length [OF assms(5,6)] by (simp add: se_def h_def)
  then obtain e0 es where se: "se = e0 # es" and les: "length es = length co + 1"
    by (cases se) auto
  have lb: "length (butlast es) = length co" and ne: "es \<noteq> []" using les by auto
  show ?thesis
    unfolding fit_inference_def Let_def h_def [symmetric] se_def [symmetric]
    using assms(1-4) lb ne
    by (simp add: se np_broadcast_same and_then_def zip_map2 comp_def case_prod_unfold
        frame_column_def)
qed

text \<open>
  A summary column of one entry is repeated to the length of the index: with no
  coefficient in the final vector and one feature column, both rows of the summary are
  the row of the intercept.
\<close>

lemma fit_inference_repeats_single_row:
  "fit_inference
       \<lparr>fit_intercept = True, ols_coef = Some [], ols_intercept = Some (Fin 2),
        coef = Some [], intercept = Some (Fin 0), sigma = Some (Fin 1)\<rparr>
       \<lparr>columns = [''a''], rows = [[Fin 1], [Fin 2]]\<rparr>
       \<lparr>res_x = [Fin 2, Fin 0], res_hess_inv = [[Fin 1, Fin 0], [Fin 0, Fin 1]],
        res_fun = Fin 0, res_nit = 1\<rparr>
     = Inr \<lparr>sum_index = [''const'', ''a''], sum_coef = [Fin 0, Fin 0],
            sum_std_err = [Fin 1, Fin 1], sum_z = [Fin 0, Fin 0], sum_p = [Fin 1, Fin 1],
            sum_lo = [Fin (- (196 / 100)), Fin (- (196 / 100))],
            sum_hi = [Fin (196 / 100), Fin (196 / 100)]\<rparr>"
  by (simp add: fit_inference_def np_diag_def upt_rec np_broadcast_def and_then_def
      frame_column_def minus_float64_def std_normal_cdf_zero round_half_even_def Let_def
      numeral_2_eq_2)

text \<open>
  C7, as stated: a negative entry on the diagonal of the inverse-curvature matrix makes
  the computation of the standard error, z and p-value raise. It does not: when the
  optimizer returns a matrix with the diagonal \<open>(1, -1, 1)\<close>, \<^verbatim>\<open>fit\<close> returns the summary,
  and the row of the coefficient holds NaN as standard error, z, p-value and confidence
  bounds.
\<close>

theorem negative_diagonal_returns_nan:
  "snd (fit (\<lambda>x_copy y. Inr [Fin 2, Fin 3])
          (\<lambda>f params0 jac. Inr \<lparr>res_x = [Fin 5, Fin 0, Fin 1],
              res_hess_inv = [[Fin 1, Fin 0, Fin 0], [Fin 0, Fin (- 1), Fin 0], [Fin 0, Fin 0, Fin 1]],
              res_fun = Fin 0, res_nit = 1\<rparr>)
          (TobitModel_init True) \<lparr>columns = [''a''], rows = [[Fin 1], [Fin 2]]\<rparr>
          [Fin 5, Fin 8] [0, 0])
     = Inr \<lparr>sum_index = [''const'', ''a''], sum_coef = [Fin 0, Fin 0],
            sum_std_err = [Fin 1, NaN], sum_z = [Fin 0, NaN], sum_p = [Fin 1, NaN],
            sum_lo = [Fin (- (196 / 100)), NaN], sum_hi = [Fin (196 / 100), NaN]\<rparr>"
  by (simp add: fit_def fit_design_def fit_warm_start_def fit_extract_def TobitModel_init_def
      np_dot_mv_def and_then_def split_left_right_censored_def value_counts_def bool_index_def
      fit_inference_def np_diag_def upt_rec np_broadcast_def frame_column_def
      minus_float64_def std_normal_cdf_zero round_half_even_def Let_def
      split: prod.splits sum.splits)

text \<open>
  C7, amended: at inference time (intercept enabled, a square inverse-curvature matrix
  of the size of the parameter vector), if the diagonal entry of the intercept or of a
  coefficient is negative, no error is raised: the summary is returned, and in the row
  of that entry the standard error, the z value, the p-value and both confidence bounds
  are NaN.
\<close>

theorem negative_diagonal_gives_nan:
  assumes "fit_intercept self" and "coef self = Some co" and "intercept self = Some ic"
    and "length (columns x) = length co"
    and "length (res_hess_inv result) = length co + 2"
    and "list_all (\<lambda>r. length r = length co + 2) (res_hess_inv result)"
    and "i < length co + 1" and "res_hess_inv result ! i ! i = Fin v" and "v < 0"
  shows "\<exists>sm. fit_inference self x result = Inr sm
           \<and> sum_std_err sm ! i = NaN \<and> sum_z sm ! i = NaN \<and> sum_p sm ! i = NaN
           \<and> sum_lo sm ! i = NaN \<and> sum_hi sm ! i = NaN"
proof -
  define se where "se = butlast (map np_sqrt (np_diag (res_hess_inv result)))"
  have len: "length se = length co + 1"
    using np_diag_length [OF assms(5,6)] by (simp add: se_def)
  have "se ! i = np_sqrt (np_diag (res_hess_inv result) ! i)"
    using len assms(7) np_diag_length [OF assms(5,6)] by (simp add: se_def nth_butlast)
  also have "\<dots> = NaN"
    using np_diag_nth [OF assms(5,6), of i] assms(7-9) by simp
  finally have nan: "se ! i = NaN" .
  have i: "i < length (ic # co)" "i < length se" using assms(7) len by simp_all
  show ?thesis
    unfolding fit_inference_summary [OF assms(1-6)] Let_def se_def [symmetric]
    using i nan by (simp add: minus_float64_def del: length_Cons)
qed

theorem negative_diagonal_gives_nan_witness:
  "\<exists>sm. fit_inference
            \<lparr>fit_intercept = True, ols_coef = Some [Fin 3, Fin 4], ols_intercept = Some (Fin 2),
             coef = Some [Fin 3, Fin 4], intercept = Some (Fin 3), sigma = Some (Fin 1)\<rparr>
            \<lparr>columns = [''a'', ''b''], rows = [[Fin 1, Fin 0], [Fin 2, Fin 1]]\<rparr>
            \<lparr>res_x = [Fin 2, Fin 3, Fin 4, Fin 1],
             res_hess_inv = [[Fin (- 4), Fin 0, Fin 0, Fin 0], [Fin 0, Fin 1, Fin 0, Fin 0],
                             [Fin 0, Fin 0, Fin 1, Fin 0], [Fin 0, Fin 0, Fin 0, Fin 1]],
             res_fun = Fin 0, res_nit = 1\<rparr> = Inr sm
        \<and> sum_std_err sm ! 0 = NaN \<and> sum_z sm ! 0 = NaN \<and> sum_p sm ! 0 = NaN
        \<and> sum_lo sm ! 0 = NaN \<and> sum_hi sm ! 0 = NaN"
  using negative_diagonal_gives_nan [of
      "\<lparr>fit_intercept = True, ols_coef = Some [Fin 3, Fin 4], ols_intercept = Some (Fin 2),
        coef = Some [Fin 3, Fin 4], intercept = Some (Fin 3), sigma = Some (Fin 1)\<rparr>"
      "[Fin 3, Fin 4]" "Fin 3"
      "\<lparr>columns = [''a'', ''b''], rows = [[Fin 1, Fin 0], [Fin 2, Fin 1]]\<rparr>"
      "\<lparr>res_x = [Fin 2, Fin 3, Fin 4, Fin 1],
        res_hess_inv = [[Fin (- 4), Fin 0, Fin 0, Fin 0], [Fin 0, Fin 1, Fin 0, Fin 0],
                        [Fin 0, Fin 0, Fin 1, Fin 0], [Fin 0, Fin 0, Fin 0, Fin 1]],
        res_fun = Fin 0, res_nit = 1\<rparr>" 0 "- 4"]
  by simp

end
